theory Spec2Isabelle
  imports Complex_Main "HOL-Library.Multiset"
begin

section \<open>Configuration (core/config.ts)\<close>

text \<open>
  The interfaces \<^verbatim>\<open>PlatformCredentials\<close> and \<^verbatim>\<open>PlatformConfig\<close>. An optional string
  is a \<open>string option\<close>. The timeout and the number of attempts are whole numbers
  here. The limit of requests a minute, which the limiter copies, compares and
  decrements, is a real number: a JavaScript number without rounding, \<^verbatim>\<open>NaN\<close> and
  the infinities.
\<close>

record PlatformCredentials =
  apiKey :: "string option"
  apiSecret :: "string option"
  accessToken :: "string option"
  refreshToken :: "string option"
  webhookSecret :: "string option"

record PlatformConfig =
  name :: string
  enabled :: bool
  baseUrl :: string
  version :: string
  credentials :: PlatformCredentials
  timeout :: int
  retryAttempts :: int
  rateLimitPerMinute :: real

text \<open>
  The test \<^verbatim>\<open>if (s)\<close> on an optional string: \<^verbatim>\<open>undefined\<close> and the empty string
  are falsy, every other string is truthy. It is the test that \<^verbatim>\<open>getAuthHeaders\<close>
  applies to a credential, and that \<^verbatim>\<open>getEnvVar\<close> applies to a required variable.
\<close>

definition present :: "string option \<Rightarrow> bool" where
  "present s = (case s of None \<Rightarrow> False | Some v \<Rightarrow> v \<noteq> [])"

section \<open>The runtime the client calls into\<close>

text \<open>
  What the client reads of a \<^verbatim>\<open>URL\<close> object: \<open>protocol\<close> carries its colon
  (\<^verbatim>\<open>https:\<close>), \<open>searchParams\<close> is the list of pairs that the object's
  \<^verbatim>\<open>searchParams\<close> iterates, \<open>hash\<close> carries its \<^verbatim>\<open>#\<close> when it is not empty.
\<close>

record URL =
  protocol :: string
  hostname :: string
  port :: string
  pathname :: string
  searchParams :: "(string \<times> string) list"
  hash :: string

text \<open>The origin of an http(s) URL: scheme, host and, when it is not the default, port.\<close>

definition origin :: "URL \<Rightarrow> string" where
  "origin u = protocol u @ ''//'' @ hostname u @ (if port u = [] then [] else '':'' @ port u)"

text \<open>\<^verbatim>\<open>url.searchParams.append(key, value)\<close>: the pair goes to the end of the list.\<close>

definition searchParams_append :: "string \<times> string \<Rightarrow> URL \<Rightarrow> URL" where
  "searchParams_append kv u = u\<lparr>searchParams := searchParams u @ [kv]\<rparr>"

datatype error =
    InvalidURL
  | InvalidOrBlockedUrl string
  | NetworkError string
  | TimeoutError
  | SyntaxError string
  | TypeError string
  | RangeError string
  | RequestFailedAfterRetries

text \<open>
  \<open>InvalidURL\<close> is the \<^verbatim>\<open>TypeError\<close> of the \<^verbatim>\<open>URL\<close> constructor,
  \<open>InvalidOrBlockedUrl url\<close> is \<^verbatim>\<open>Error(`Invalid or blocked URL: ${url}`)\<close>,
  \<open>RequestFailedAfterRetries\<close> is \<^verbatim>\<open>Error('Request failed after retries')\<close>; the
  others are what \<^verbatim>\<open>JSON.stringify\<close>, \<^verbatim>\<open>AbortSignal.timeout\<close>, \<^verbatim>\<open>fetch\<close> and
  \<^verbatim>\<open>response.json()\<close> throw or reject with.
\<close>

datatype http_verb = GET | POST | PUT | PATCH | DELETE

text \<open>
  The second argument of \<^verbatim>\<open>fetch\<close>; \<open>init_timeout\<close> is the argument of
  \<^verbatim>\<open>AbortSignal.timeout\<close>.
\<close>

record fetch_init =
  init_method :: http_verb
  init_headers :: "string \<rightharpoonup> string"
  init_body :: "string option"
  init_timeout :: int

text \<open>
  What the client reads of the \<^verbatim>\<open>Response\<close> that \<^verbatim>\<open>fetch\<close> resolves to:
  \<open>r_entries\<close> is \<^verbatim>\<open>response.headers.entries()\<close> and \<open>r_json\<close> is the outcome of
  \<^verbatim>\<open>await response.json()\<close>, \<open>Inl\<close> when the body is empty or is not JSON.
\<close>

record 'd Response =
  r_status :: int
  r_statusText :: string
  r_entries :: "(string \<times> string) list"
  r_json :: "error + 'd"

text \<open>
  The runtime is a parameter of the model: the environment variable \<^verbatim>\<open>NODE_ENV\<close>; the
  \<^verbatim>\<open>URL\<close> constructor with its optional base (\<open>None\<close> when it throws) and
  \<^verbatim>\<open>toString\<close>; \<^verbatim>\<open>JSON.stringify\<close>, which throws (\<open>Inl\<close>, as on a circular
  value), answers \<^verbatim>\<open>undefined\<close> (\<open>Inr None\<close>, as on a function) or gives a text;
  \<^verbatim>\<open>AbortSignal.timeout\<close>, of which only the error that it throws on a delay it
  refuses matters; and the network: \<open>fetch rt n url init\<close> is the outcome of the call
  of \<^verbatim>\<open>fetch\<close> that attempt \<open>n\<close> of a request makes, \<open>Inl\<close> when the promise
  rejects (network failure, timeout).
\<close>

record ('b, 'd) runtime =
  NODE_ENV :: "string option"
  URL_new :: "string \<Rightarrow> string option \<Rightarrow> URL option"
  URL_toString :: "URL \<Rightarrow> string"
  JSON_stringify :: "'b \<Rightarrow> error + string option"
  AbortSignal_timeout :: "int \<Rightarrow> error option"
  fetch :: "nat \<Rightarrow> string \<Rightarrow> fetch_init \<Rightarrow> error + 'd Response"

section \<open>The safe HTTP client\<close>

text \<open>
  \<^verbatim>\<open>HttpRequestOptions\<close>. \<open>headers\<close> is the record of caller-supplied headers,
  \<open>query\<close> the entries of the query record in the order \<^verbatim>\<open>Object.entries\<close> lists them.
  \<open>body = None\<close> stands for a missing body and for a falsy one, which
  \<^verbatim>\<open>options.body ? ... : undefined\<close> drops alike. The fields \<^verbatim>\<open>method\<close> and \<^verbatim>\<open>timeout\<close> are
  \<open>http_method\<close> and \<open>timeout_ms\<close> here.
\<close>

record 'b HttpRequestOptions =
  http_method :: http_verb
  path :: string
  headers :: "(string \<rightharpoonup> string) option"
  body :: "'b option"
  query :: "(string \<times> string) list option"
  timeout_ms :: "int option"

text \<open>\<^verbatim>\<open>HttpResponse\<close>; its header record is \<open>response_headers\<close> here.\<close>

record 'd HttpResponse =
  status :: int
  statusText :: string
  response_headers :: "string \<rightharpoonup> string"
  data :: 'd
  requestId :: "string option"

text \<open>\<^verbatim>\<open>RateLimiter\<close>; \<open>resetAt\<close> is the date in milliseconds, as \<^verbatim>\<open>getTime()\<close> reads it.\<close>

record RateLimiter =
  remaining :: real
  limit :: real
  resetAt :: int

record SafeHttpClient =
  config :: PlatformConfig
  rateLimiter :: RateLimiter

text \<open>The constructor, run when \<^verbatim>\<open>Date.now()\<close> is \<open>now\<close>.\<close>

definition SafeHttpClient_new :: "PlatformConfig \<Rightarrow> int \<Rightarrow> SafeHttpClient" where
  "SafeHttpClient_new cfg now =
     \<lparr>config = cfg,
      rateLimiter = \<lparr>remaining = rateLimitPerMinute cfg,
                     limit = rateLimitPerMinute cfg,
                     resetAt = now + 60000\<rparr>\<rparr>"

definition blockedHosts :: "string list" where
  "blockedHosts = [''localhost'', ''127.0.0.1'', ''0.0.0.0'', ''::1'']"

definition validateUrl :: "('b, 'd) runtime \<Rightarrow> string \<Rightarrow> bool" where
  "validateUrl rt url =
     (case URL_new rt url None of
        None \<Rightarrow> False
      | Some parsed \<Rightarrow>
          if NODE_ENV rt = Some ''production'' \<and> protocol parsed \<noteq> ''https:'' then False
          else if hostname parsed \<in> set blockedHosts then NODE_ENV rt \<noteq> Some ''production''
          else True)"

definition buildUrl ::
  "('b, 'd) runtime \<Rightarrow> SafeHttpClient \<Rightarrow> string \<Rightarrow> (string \<times> string) list option \<Rightarrow> error + string"
where
  "buildUrl rt c p q =
     (case URL_new rt p (Some (baseUrl (config c))) of
        None \<Rightarrow> Inl InvalidURL
      | Some url \<Rightarrow>
          Inr (URL_toString rt
                 (case q of None \<Rightarrow> url | Some entries \<Rightarrow> fold searchParams_append entries url)))"

definition getAuthHeaders :: "SafeHttpClient \<Rightarrow> (string \<rightharpoonup> string)" where
  "getAuthHeaders c =
     (if present (accessToken (credentials (config c)))
      then [''Authorization'' \<mapsto> ''Bearer '' @ the (accessToken (credentials (config c)))]
      else if present (apiKey (credentials (config c)))
      then [''X-API-Key'' \<mapsto> the (apiKey (credentials (config c)))]
      else Map.empty)"

text \<open>
  \<^verbatim>\<open>checkRateLimit\<close>, run when \<^verbatim>\<open>Date.now()\<close> is \<open>now\<close>: the clock is read up to
  three times before the check suspends, and the readings are taken as one instant.
  The result is the delay handed to \<^verbatim>\<open>setTimeout\<close> when the check waits, and the
  limiter after the decrement.
\<close>

definition checkRateLimit :: "int \<Rightarrow> RateLimiter \<Rightarrow> int option \<times> RateLimiter" where
  "checkRateLimit now rl =
     (let rl1 = (if now > resetAt rl
                 then rl\<lparr>remaining := limit rl, resetAt := now + 60000\<rparr>
                 else rl);
          waitTime = (if remaining rl1 \<le> 0 then Some (resetAt rl1 - now) else None);
          rl2 = (if remaining rl1 \<le> 0 then rl1\<lparr>remaining := limit rl1\<rparr> else rl1)
      in (waitTime, rl2\<lparr>remaining := remaining rl2 - 1\<rparr>))"

text \<open>
  What one request does, as the caller and the network see it: the wait of the
  rate-limit check, the calls of \<^verbatim>\<open>fetch\<close> with the number of the attempt, and the
  delays handed to \<^verbatim>\<open>setTimeout\<close> between attempts, in milliseconds.
\<close>

datatype event = RateLimitWait int | Fetch nat | Backoff int

text \<open>
  The object literal \<^verbatim>\<open>headers\<close> of \<^verbatim>\<open>request\<close>, built once before the loop and
  handed to every \<^verbatim>\<open>fetch\<close>: a later spread wins.
\<close>

definition request_headers :: "SafeHttpClient \<Rightarrow> 'b HttpRequestOptions \<Rightarrow> (string \<rightharpoonup> string)" where
  "request_headers c options =
     [''Content-Type'' \<mapsto> ''application/json'',
      ''User-Agent'' \<mapsto> ''BlackRoad-CLI/'' @ version (config c)]
     ++ getAuthHeaders c
     ++ (case headers options of None \<Rightarrow> Map.empty | Some h \<Rightarrow> h)"

text \<open>
  The second argument of \<^verbatim>\<open>fetch\<close>, which every attempt evaluates anew inside its
  \<^verbatim>\<open>try\<close> block, in the order of the literal: the body, where
  \<^verbatim>\<open>JSON.stringify\<close> may throw, then the signal, where \<^verbatim>\<open>AbortSignal.timeout\<close>
  may throw. \<open>Inl\<close> is what is thrown. \<^verbatim>\<open>options.timeout || config.timeout\<close> takes
  the configuration's timeout when the option is missing or zero.
\<close>

definition request_init ::
  "('b, 'd) runtime \<Rightarrow> SafeHttpClient \<Rightarrow> 'b HttpRequestOptions \<Rightarrow> error + fetch_init"
where
  "request_init rt c options =
     (case (case body options of None \<Rightarrow> Inr None | Some b \<Rightarrow> JSON_stringify rt b) of
        Inl e \<Rightarrow> Inl e
      | Inr payload \<Rightarrow>
          (let t = (case timeout_ms options of
                      None \<Rightarrow> timeout (config c)
                    | Some t \<Rightarrow> if t = 0 then timeout (config c) else t)
           in case AbortSignal_timeout rt t of
                Some e \<Rightarrow> Inl e
              | None \<Rightarrow>
                  Inr \<lparr>init_method = http_method options,
                       init_headers = request_headers c options,
                       init_body = payload,
                       init_timeout = t\<rparr>))"

text \<open>
  \<^verbatim>\<open>Object.fromEntries\<close> keeps the last value of a repeated key;
  \<^verbatim>\<open>headers.get(k) || undefined\<close> turns a missing and an empty value into
  \<^verbatim>\<open>undefined\<close>.
\<close>

definition fromEntries :: "(string \<times> string) list \<Rightarrow> (string \<rightharpoonup> string)" where
  "fromEntries es = map_of (rev es)"

definition header_or_undefined :: "(string \<times> string) list \<Rightarrow> string \<Rightarrow> string option" where
  "header_or_undefined es k =
     (case map_of es k of None \<Rightarrow> None | Some v \<Rightarrow> if v = [] then None else Some v)"

text \<open>
  The body of the \<^verbatim>\<open>try\<close> block at attempt \<open>n\<close>. First component: \<open>Inl\<close> is the
  error that the \<^verbatim>\<open>catch\<close> clause receives, \<open>Inr\<close> the value that \<^verbatim>\<open>request\<close>
  returns. Second component: the call of \<^verbatim>\<open>fetch\<close>, if the attempt gets that far.
  The status of the response is copied, never tested.
\<close>

definition try_attempt ::
  "('b, 'd) runtime \<Rightarrow> SafeHttpClient \<Rightarrow> 'b HttpRequestOptions \<Rightarrow> string \<Rightarrow> nat
     \<Rightarrow> (error + 'd HttpResponse) \<times> event list"
where
  "try_attempt rt c options url n =
     (case request_init rt c options of
        Inl e \<Rightarrow> (Inl e, [])
      | Inr init \<Rightarrow>
          (case fetch rt n url init of
             Inl e \<Rightarrow> (Inl e, [Fetch n])
           | Inr response \<Rightarrow>
               (case r_json response of
                  Inl e \<Rightarrow> (Inl e, [Fetch n])
                | Inr d \<Rightarrow>
                    (Inr \<lparr>status = r_status response,
                          statusText = r_statusText response,
                          response_headers = fromEntries (r_entries response),
                          data = d,
                          requestId = header_or_undefined (r_entries response) ''x-request-id''\<rparr>,
                     [Fetch n]))))"

text \<open>
  The \<^verbatim>\<open>for\<close> loop of \<^verbatim>\<open>request\<close> from \<open>attempt\<close> on, with the
  \<^verbatim>\<open>throw\<close> that follows it: the outcome and the events in order.
\<close>

function retry_loop ::
  "('b, 'd) runtime \<Rightarrow> SafeHttpClient \<Rightarrow> 'b HttpRequestOptions \<Rightarrow> string \<Rightarrow> nat
     \<Rightarrow> error option \<Rightarrow> (error + 'd HttpResponse) \<times> event list"
where
  "retry_loop rt c options url attempt lastError =
     (if int attempt < retryAttempts (config c) then
        (case fst (try_attempt rt c options url attempt) of
           Inr response \<Rightarrow> (Inr response, snd (try_attempt rt c options url attempt))
         | Inl e \<Rightarrow>
             apsnd ((@) (snd (try_attempt rt c options url attempt)
                         @ (if int attempt < retryAttempts (config c) - 1
                            then [Backoff (2 ^ attempt * 1000)] else [])))
                   (retry_loop rt c options url (attempt + 1) (Some e)))
      else
        (Inl (case lastError of Some e \<Rightarrow> e | None \<Rightarrow> RequestFailedAfterRetries), []))"
  by pat_completeness auto
termination
  by (relation "measure (\<lambda>(rt, c, options, url, attempt, lastError).
                   nat (retryAttempts (config c) - int attempt))") auto

text \<open>
  \<^verbatim>\<open>request\<close>, called when \<^verbatim>\<open>Date.now()\<close> is \<open>now\<close>: the outcome (\<open>Inl\<close> what is
  thrown), the events, and the client with its limiter as the call leaves it.
\<close>

definition request ::
  "('b, 'd) runtime \<Rightarrow> int \<Rightarrow> SafeHttpClient \<Rightarrow> 'b HttpRequestOptions
     \<Rightarrow> (error + 'd HttpResponse) \<times> event list \<times> SafeHttpClient"
where
  "request rt now c options =
     (case buildUrl rt c (path options) (query options) of
        Inl e \<Rightarrow> (Inl e, [], c)
      | Inr url \<Rightarrow>
          if \<not> validateUrl rt url then (Inl (InvalidOrBlockedUrl url), [], c)
          else
            (let (waited, rl) = checkRateLimit now (rateLimiter c);
                 (outcome, evs) = retry_loop rt c options url 0 None
             in (outcome,
                 (case waited of None \<Rightarrow> [] | Some d \<Rightarrow> [RateLimitWait d]) @ evs,
                 c\<lparr>rateLimiter := rl\<rparr>)))"

text \<open>The convenience methods.\<close>

definition get ::
  "('b, 'd) runtime \<Rightarrow> int \<Rightarrow> SafeHttpClient \<Rightarrow> string \<Rightarrow> (string \<times> string) list option
     \<Rightarrow> (error + 'd HttpResponse) \<times> event list \<times> SafeHttpClient"
where
  "get rt now c p q =
     request rt now c
       \<lparr>http_method = GET, path = p, headers = None, body = None, query = q, timeout_ms = None\<rparr>"

definition post ::
  "('b, 'd) runtime \<Rightarrow> int \<Rightarrow> SafeHttpClient \<Rightarrow> string \<Rightarrow> 'b option
     \<Rightarrow> (error + 'd HttpResponse) \<times> event list \<times> SafeHttpClient"
where
  "post rt now c p b =
     request rt now c
       \<lparr>http_method = POST, path = p, headers = None, body = b, query = None, timeout_ms = None\<rparr>"

definition put ::
  "('b, 'd) runtime \<Rightarrow> int \<Rightarrow> SafeHttpClient \<Rightarrow> string \<Rightarrow> 'b option
     \<Rightarrow> (error + 'd HttpResponse) \<times> event list \<times> SafeHttpClient"
where
  "put rt now c p b =
     request rt now c
       \<lparr>http_method = PUT, path = p, headers = None, body = b, query = None, timeout_ms = None\<rparr>"

definition patch ::
  "('b, 'd) runtime \<Rightarrow> int \<Rightarrow> SafeHttpClient \<Rightarrow> string \<Rightarrow> 'b option
     \<Rightarrow> (error + 'd HttpResponse) \<times> event list \<times> SafeHttpClient"
where
  "patch rt now c p b =
     request rt now c
       \<lparr>http_method = PATCH, path = p, headers = None, body = b, query = None, timeout_ms = None\<rparr>"

definition delete ::
  "('b, 'd) runtime \<Rightarrow> int \<Rightarrow> SafeHttpClient \<Rightarrow> string
     \<Rightarrow> (error + 'd HttpResponse) \<times> event list \<times> SafeHttpClient"
where
  "delete rt now c p =
     request rt now c
       \<lparr>http_method = DELETE, path = p, headers = None, body = None, query = None, timeout_ms = None\<rparr>"

section \<open>Notions the properties are stated with\<close>

text \<open>The invariant of the limiter.\<close>

definition limiter_inv :: "RateLimiter \<Rightarrow> bool" where
  "limiter_inv rl = (0 \<le> remaining rl \<and> remaining rl \<le> limit rl)"

text \<open>
  Rate-limit checks one after the other, at the times of the list: the waits of the
  checks in order, and the limiter after the last one.
\<close>

fun checkRateLimit_seq :: "int list \<Rightarrow> RateLimiter \<Rightarrow> int option list \<times> RateLimiter" where
  "checkRateLimit_seq [] rl = ([], rl)"
| "checkRateLimit_seq (t # ts) rl =
     (let (w, rl1) = checkRateLimit t rl; (ws, rl2) = checkRateLimit_seq ts rl1
      in (w # ws, rl2))"

text \<open>
  What a failed attempt \<open>i\<close> leaves in the events when the limit of attempts is \<open>R\<close>:
  unless it is the last attempt, a backoff of \<open>2 ^ i\<close> seconds (\<open>backoff_after\<close>),
  after its \<^verbatim>\<open>fetch\<close> when it has called it (\<open>failed_attempt\<close>).
  \<open>failed_attempts R a\<close> lists that for the attempts \<open>a, ..., R - 1\<close> when each of
  them has called \<^verbatim>\<open>fetch\<close>, \<open>skipped_attempts R a\<close> when none of them has.
\<close>

definition backoff_after :: "int \<Rightarrow> nat \<Rightarrow> event list" where
  "backoff_after R i = (if int i < R - 1 then [Backoff (2 ^ i * 1000)] else [])"

definition failed_attempt :: "int \<Rightarrow> nat \<Rightarrow> event list" where
  "failed_attempt R i = Fetch i # (if int i < R - 1 then [Backoff (2 ^ i * 1000)] else [])"

definition failed_attempts :: "int \<Rightarrow> nat \<Rightarrow> event list" where
  "failed_attempts R a = concat (map (failed_attempt R) [a..<nat R])"

definition skipped_attempts :: "int \<Rightarrow> nat \<Rightarrow> event list" where
  "skipped_attempts R a = concat (map (backoff_after R) [a..<nat R])"

text \<open>The events of the rate-limit check of a request made at \<open>now\<close>.\<close>

definition rate_limit_events :: "int \<Rightarrow> SafeHttpClient \<Rightarrow> event list" where
  "rate_limit_events now c =
     (case fst (checkRateLimit now (rateLimiter c)) of
        None \<Rightarrow> []
      | Some d \<Rightarrow> [RateLimitWait d])"

fun is_Fetch :: "event \<Rightarrow> bool" where
  "is_Fetch (Fetch n) = True"
| "is_Fetch (RateLimitWait d) = False"
| "is_Fetch (Backoff d) = False"

text \<open>The headers that the caller supplies; none when \<^verbatim>\<open>options.headers\<close> is missing.\<close>

definition caller_headers :: "'b HttpRequestOptions \<Rightarrow> (string \<rightharpoonup> string)" where
  "caller_headers options = (case headers options of None \<Rightarrow> Map.empty | Some h \<Rightarrow> h)"


section \<open>The URL constructor on plain inputs, and a runtime for the examples\<close>

text \<open>
  The \<^verbatim>\<open>URL\<close> constructor of the platform follows the URL Standard. \<open>plain_URL_new\<close>
  is that constructor on a fragment of its inputs on which it neither rewrites nor
  escapes anything:
  \<^item> an absolute URL: \<^verbatim>\<open>http://\<close> or \<^verbatim>\<open>https://\<close>, a host of lower-case
    letters and dots or the IPv6 loopback \<^verbatim>\<open>[::1]\<close>, an optional port, an optional
    path of segments of letters, digits and \<^verbatim>\<open>-_.\<close> other than the dot segments,
    an optional query of \<^verbatim>\<open>key=value\<close> pairs of such characters;
  \<^item> against such a base, a reference that is such a path, with one leading slash,
    and query on its own, which keeps scheme, host and port of the base; or the
    empty reference, which is the base itself.
  On any other input it answers \<open>None\<close>: that is what the platform does for a
  string without scheme and without base, and elsewhere it only marks the end of the
  fragment. The theorems about \<^verbatim>\<open>buildUrl\<close> use it under the hypothesis that it
  answers \<open>Some\<close>.
\<close>

definition lower :: "char \<Rightarrow> bool" where
  "lower ch = (ch \<in> set ''abcdefghijklmnopqrstuvwxyz'')"

definition digit :: "char \<Rightarrow> bool" where
  "digit ch = (ch \<in> set ''0123456789'')"

definition word_char :: "char \<Rightarrow> bool" where
  "word_char ch = (lower ch \<or> digit ch \<or> ch \<in> set ''ABCDEFGHIJKLMNOPQRSTUVWXYZ-_.'')"

fun split_on :: "char \<Rightarrow> string \<Rightarrow> string list" where
  "split_on sep [] = [[]]"
| "split_on sep (ch # cs) =
     (if ch = sep then [] # split_on sep cs
      else (case split_on sep cs of [] \<Rightarrow> [[ch]] | w # ws \<Rightarrow> (ch # w) # ws))"

definition strip_prefix :: "string \<Rightarrow> string \<Rightarrow> string option" where
  "strip_prefix pre s = (if take (length pre) s = pre then Some (drop (length pre) s) else None)"

text \<open>
  A path with one leading slash: a second slash does not follow the first, and no
  segment is \<^verbatim>\<open>.\<close> or \<^verbatim>\<open>..\<close>.
\<close>

definition plain_path :: "string \<Rightarrow> bool" where
  "plain_path p =
     (case split_on CHR ''/'' p of
        w # seg # segs \<Rightarrow>
          w = [] \<and> (seg \<noteq> [] \<or> segs = [])
          \<and> (\<forall>s \<in> set (seg # segs). s \<noteq> ''.'' \<and> s \<noteq> ''..'' \<and> (\<forall>ch \<in> set s. word_char ch))
      | _ \<Rightarrow> False)"

definition parse_pair :: "string \<Rightarrow> (string \<times> string) option" where
  "parse_pair kv =
     (let k = takeWhile (\<lambda>ch. ch \<noteq> CHR ''='') kv; v = drop (Suc (length k)) kv
      in if k \<noteq> [] \<and> length k < length kv \<and> (\<forall>ch \<in> set (k @ v). word_char ch)
         then Some (k, v) else None)"

fun parse_pairs :: "string list \<Rightarrow> (string \<times> string) list option" where
  "parse_pairs [] = Some []"
| "parse_pairs (kv # kvs) =
     (case parse_pair kv of
        None \<Rightarrow> None
      | Some pr \<Rightarrow> map_option ((#) pr) (parse_pairs kvs))"

text \<open>Path and query of a URL, from the first slash on; an empty path is \<^verbatim>\<open>/\<close>.\<close>

definition parse_path_query :: "string \<Rightarrow> (string \<times> (string \<times> string) list) option" where
  "parse_path_query s =
     (let p = takeWhile (\<lambda>ch. ch \<noteq> CHR ''?'') s; q = drop (length p) s
      in if p \<noteq> [] \<and> \<not> plain_path p then None
         else (case q of
                 [] \<Rightarrow> Some (if p = [] then ''/'' else p, [])
               | _ # qs \<Rightarrow>
                   map_option (Pair (if p = [] then ''/'' else p))
                     (parse_pairs (split_on CHR ''&'' qs))))"

text \<open>Host and port; the port of the scheme is left out, as the platform does.\<close>

definition parse_authority :: "string \<Rightarrow> string \<Rightarrow> (string \<times> string) option" where
  "parse_authority default_port a =
     (let h = (if take 5 a = ''[::1]'' then ''[::1]'' else takeWhile (\<lambda>ch. ch \<noteq> CHR '':'') a);
          r = drop (length h) a;
          n = drop 1 r
      in if h = [] \<or> (h \<noteq> ''[::1]'' \<and> \<not> (\<forall>ch \<in> set h. lower ch \<or> ch = CHR ''.'')) then None
         else if r = [] then Some (h, [])
         else if take 1 r \<noteq> '':'' \<or> n = [] \<or> 4 < length n \<or> take 1 n = ''0''
                 \<or> \<not> (\<forall>ch \<in> set n. digit ch) then None
         else Some (h, if n = default_port then [] else n))"

definition parse_absolute :: "string \<Rightarrow> URL option" where
  "parse_absolute s =
     (case (case strip_prefix ''https://'' s of
              Some r \<Rightarrow> Some (''https:'', ''443'', r)
            | None \<Rightarrow> map_option (\<lambda>r. (''http:'', ''80'', r)) (strip_prefix ''http://'' s)) of
        None \<Rightarrow> None
      | Some (proto, default_port, r) \<Rightarrow>
          (let a = takeWhile (\<lambda>ch. ch \<noteq> CHR ''/'' \<and> ch \<noteq> CHR ''?'') r
           in case (parse_authority default_port a, parse_path_query (drop (length a) r)) of
                (Some (h, n), Some (p, q)) \<Rightarrow>
                  Some \<lparr>protocol = proto, hostname = h, port = n, pathname = p,
                        searchParams = q, hash = []\<rparr>
              | _ \<Rightarrow> None))"

definition plain_URL_new :: "string \<Rightarrow> string option \<Rightarrow> URL option" where
  "plain_URL_new s base =
     (case parse_absolute s of
        Some u \<Rightarrow> Some u
      | None \<Rightarrow>
          (case Option.bind base parse_absolute of
             None \<Rightarrow> None
           | Some b \<Rightarrow>
               if s = [] then Some b
               else if take 1 s \<noteq> ''/'' then None
               else map_option (\<lambda>(p, q). b\<lparr>pathname := p, searchParams := q\<rparr>)
                      (parse_path_query s)))"

definition join_pairs :: "(string \<times> string) list \<Rightarrow> string" where
  "join_pairs kvs =
     concat (map (\<lambda>(i, (k, v)). (if i = 0 then [] else ''&'') @ k @ ''='' @ v)
               (enumerate 0 kvs))"

definition plain_URL_toString :: "URL \<Rightarrow> string" where
  "plain_URL_toString u =
     origin u @ pathname u
     @ (if searchParams u = [] then [] else ''?'' @ join_pairs (searchParams u))
     @ hash u"

text \<open>
  The runtime of the examples, outside production. A request body is a boolean,
  \<^verbatim>\<open>true\<close> being the only truthy one. \<^verbatim>\<open>AbortSignal.timeout\<close> refuses what Node.js
  refuses, a delay that is not an unsigned 32-bit number. The network answers every
  call with status 200 and the JSON text \<^verbatim>\<open>"ok"\<close>; the variants below change
  \<^verbatim>\<open>NODE_ENV\<close> and the network.
\<close>

definition example_rt :: "(bool, string) runtime" where
  "example_rt =
     \<lparr>NODE_ENV = None,
      URL_new = plain_URL_new,
      URL_toString = plain_URL_toString,
      JSON_stringify = (\<lambda>b. Inr (Some (if b then ''true'' else ''false''))),
      AbortSignal_timeout =
        (\<lambda>t. if t < 0 \<or> 4294967295 < t then Some (RangeError ''ERR_OUT_OF_RANGE'') else None),
      fetch = (\<lambda>n url init.
                 Inr \<lparr>r_status = 200, r_statusText = ''OK'',
                      r_entries = [(''content-type'', ''application/json'')],
                      r_json = Inr ''ok''\<rparr>)\<rparr>"

definition no_credentials :: PlatformCredentials where
  "no_credentials =
     \<lparr>apiKey = None, apiSecret = None, accessToken = None, refreshToken = None,
      webhookSecret = None\<rparr>"

text \<open>A configuration as \<^verbatim>\<open>createPlatformConfig\<close> builds it for GitHub, without credentials.\<close>

definition github_config :: PlatformConfig where
  "github_config =
     \<lparr>name = ''GitHub'', enabled = True, baseUrl = ''https://api.github.com'',
      version = ''2022-11-28'', credentials = no_credentials, timeout = 30000,
      retryAttempts = 3, rateLimitPerMinute = 5000\<rparr>"

definition github_client :: SafeHttpClient where
  "github_client = SafeHttpClient_new github_config 0"

text \<open>
  The options that \<^verbatim>\<open>get('/user')\<close> passes to \<^verbatim>\<open>request\<close>, and the same with a
  timeout of -5 milliseconds.
\<close>

definition get_user :: "bool HttpRequestOptions" where
  "get_user =
     \<lparr>http_method = GET, path = ''/user'', headers = None, body = None, query = None,
      timeout_ms = None\<rparr>"

definition get_user_negative_timeout :: "bool HttpRequestOptions" where
  "get_user_negative_timeout = get_user\<lparr>timeout_ms := Some (- 5)\<rparr>"

text \<open>
  Configurations with both credentials, with the API key only, and with an empty
  access token beside the API key.
\<close>

definition token_and_key_config :: PlatformConfig where
  "token_and_key_config =
     github_config\<lparr>credentials := no_credentials\<lparr>accessToken := Some ''t'', apiKey := Some ''k''\<rparr>\<rparr>"

definition key_only_config :: PlatformConfig where
  "key_only_config = github_config\<lparr>credentials := no_credentials\<lparr>apiKey := Some ''k''\<rparr>\<rparr>"

definition empty_token_config :: PlatformConfig where
  "empty_token_config =
     github_config\<lparr>credentials := no_credentials\<lparr>accessToken := Some [], apiKey := Some ''k''\<rparr>\<rparr>"

text \<open>The Docker client's default base URL, and the runtime in production.\<close>

definition docker_config :: PlatformConfig where
  "docker_config =
     github_config\<lparr>name := ''Docker'', baseUrl := ''http://localhost:2375'', version := ''v1.43'',
                   timeout := 60000, rateLimitPerMinute := 60\<rparr>"

definition production_rt :: "(bool, string) runtime" where
  "production_rt = example_rt\<lparr>NODE_ENV := Some ''production''\<rparr>"

text \<open>Limits of two, zero, minus one and one and a half requests a minute.\<close>

definition limit_two_config :: PlatformConfig where
  "limit_two_config = github_config\<lparr>rateLimitPerMinute := 2\<rparr>"

definition limit_zero_config :: PlatformConfig where
  "limit_zero_config = github_config\<lparr>rateLimitPerMinute := 0\<rparr>"

definition limit_negative_config :: PlatformConfig where
  "limit_negative_config = github_config\<lparr>rateLimitPerMinute := - 1\<rparr>"

definition limit_fraction_config :: PlatformConfig where
  "limit_fraction_config = github_config\<lparr>rateLimitPerMinute := 3 / 2\<rparr>"

text \<open>The options that \<^verbatim>\<open>get('/info')\<close> passes to \<^verbatim>\<open>request\<close>.\<close>

definition get_info :: "bool HttpRequestOptions" where
  "get_info =
     \<lparr>http_method = GET, path = ''/info'', headers = None, body = None, query = None,
      timeout_ms = None\<rparr>"

text \<open>
  Networks for the examples: one that answers 404 with a JSON body, one whose first
  call fails and whose later calls answer 404 with a JSON body, one whose calls all
  fail (the third by timeout), and one that answers 204 with an empty body.
\<close>

definition not_found :: "string Response" where
  "not_found =
     \<lparr>r_status = 404, r_statusText = ''Not Found'',
      r_entries = [(''content-type'', ''application/json''), (''x-request-id'', ''r1'')],
      r_json = Inr ''Not Found''\<rparr>"

definition not_found_rt :: "(bool, string) runtime" where
  "not_found_rt = example_rt\<lparr>fetch := \<lambda>n url init. Inr not_found\<rparr>"

definition flaky_rt :: "(bool, string) runtime" where
  "flaky_rt =
     example_rt\<lparr>fetch := \<lambda>n url init.
                   if n = 0 then Inl (NetworkError ''fetch failed'') else Inr not_found\<rparr>"

definition down_rt :: "(bool, string) runtime" where
  "down_rt =
     example_rt\<lparr>fetch := \<lambda>n url init.
                   if n = 2 then Inl TimeoutError else Inl (NetworkError ''fetch failed'')\<rparr>"

definition no_content :: "string Response" where
  "no_content =
     \<lparr>r_status = 204, r_statusText = ''No Content'', r_entries = [],
      r_json = Inl (SyntaxError ''Unexpected end of JSON input'')\<rparr>"

definition no_content_rt :: "(bool, string) runtime" where
  "no_content_rt = example_rt\<lparr>fetch := \<lambda>n url init. Inr no_content\<rparr>"

text \<open>
  Callers that pass a header of their own: \<^verbatim>\<open>Authorization\<close>, and \<^verbatim>\<open>X-API-Key\<close>.
\<close>

definition get_user_as_other :: "bool HttpRequestOptions" where
  "get_user_as_other = get_user\<lparr>headers := Some [''Authorization'' \<mapsto> ''Bearer other'']\<rparr>"

definition get_user_with_key :: "bool HttpRequestOptions" where
  "get_user_with_key = get_user\<lparr>headers := Some [''X-API-Key'' \<mapsto> ''mine'']\<rparr>"

section \<open>The retry loop and the rate-limit check\<close>

declare retry_loop.simps [simp del]

lemmas plain_URL_defs =
  plain_URL_new_def parse_absolute_def strip_prefix_def parse_authority_def
  parse_path_query_def plain_path_def parse_pair_def lower_def digit_def word_char_def
  plain_URL_toString_def join_pairs_def origin_def

lemmas example_config_defs =
  github_config_def github_client_def no_credentials_def token_and_key_config_def
  key_only_config_def empty_token_config_def docker_config_def limit_two_config_def
  limit_zero_config_def limit_negative_config_def limit_fraction_config_def
  SafeHttpClient_new_def

lemmas example_rt_defs =
  example_rt_def production_rt_def not_found_rt_def flaky_rt_def down_rt_def
  no_content_rt_def not_found_def no_content_def

lemma failed_attempts_done: "\<not> int a < R \<Longrightarrow> failed_attempts R a = []"
  by (simp add: failed_attempts_def)

lemma failed_attempts_step:
  "int a < R \<Longrightarrow> failed_attempts R a = failed_attempt R a @ failed_attempts R (Suc a)"
  by (simp add: failed_attempts_def upt_conv_Cons)

text \<open>Every attempt from \<open>a\<close> on fails: with error \<open>err i\<close>, leaving the events \<open>ev i\<close>.\<close>

lemma retry_loop_all_fail:
  assumes "\<And>i. a \<le> i \<Longrightarrow> int i < retryAttempts (config c) \<Longrightarrow>
             try_attempt rt c options url i = (Inl (err i), ev i)"
  shows "retry_loop rt c options url a lastError =
           (Inl (if int a < retryAttempts (config c)
                 then err (nat (retryAttempts (config c)) - 1)
                 else (case lastError of Some e \<Rightarrow> e | None \<Rightarrow> RequestFailedAfterRetries)),
            concat (map (\<lambda>i. ev i @ backoff_after (retryAttempts (config c)) i)
                      [a..<nat (retryAttempts (config c))]))"
  using assms
proof (induction "nat (retryAttempts (config c)) - a" arbitrary: a lastError)
  case 0
  then have "\<not> int a < retryAttempts (config c)" by linarith
  then show ?case
    by (subst retry_loop.simps) simp
next
  case (Suc n)
  then have lt: "int a < retryAttempts (config c)" by linarith
  have fails: "try_attempt rt c options url a = (Inl (err a), ev a)"
    using Suc.prems lt by simp
  have n: "n = nat (retryAttempts (config c)) - Suc a" using Suc.hyps(2) by simp
  have rest: "retry_loop rt c options url (Suc a) (Some (err a)) =
           (Inl (if int (Suc a) < retryAttempts (config c)
                 then err (nat (retryAttempts (config c)) - 1)
                 else err a),
            concat (map (\<lambda>i. ev i @ backoff_after (retryAttempts (config c)) i)
                      [Suc a..<nat (retryAttempts (config c))]))"
    using Suc.hyps(1) [OF n, of "Some (err a)"] Suc.prems by simp
  have final_one:
    "\<not> int (Suc a) < retryAttempts (config c) \<Longrightarrow> nat (retryAttempts (config c)) - 1 = a"
    using lt by linarith
  have upt: "[a..<nat (retryAttempts (config c))] = a # [Suc a..<nat (retryAttempts (config c))]"
    using lt by (simp add: upt_conv_Cons)
  show ?case
    using lt fails rest final_one
    by (subst retry_loop.simps) (auto simp: upt backoff_after_def)
qed

text \<open>The attempts from \<open>a\<close> to \<open>k - 1\<close> fail, attempt \<open>k\<close> returns.\<close>

lemma retry_loop_first_success:
  assumes "a \<le> k" and "int k < retryAttempts (config c)"
    and "\<And>i. a \<le> i \<Longrightarrow> i < k \<Longrightarrow> try_attempt rt c options url i = (Inl (err i), ev i)"
    and "try_attempt rt c options url k = (Inr response, evk)"
  shows "retry_loop rt c options url a lastError =
           (Inr response,
            concat (map (\<lambda>i. ev i @ [Backoff (2 ^ i * 1000)]) [a..<k]) @ evk)"
  using assms
proof (induction "k - a" arbitrary: a lastError)
  case 0
  then have "a = k" by simp
  with 0 show ?case
    by (subst retry_loop.simps) simp
next
  case (Suc n)
  then have lt: "a < k" by linarith
  have fails: "try_attempt rt c options url a = (Inl (err a), ev a)"
    using Suc.prems lt by simp
  have n: "n = k - Suc a" using Suc.hyps(2) by simp
  have rest: "retry_loop rt c options url (Suc a) (Some (err a)) =
           (Inr response,
            concat (map (\<lambda>i. ev i @ [Backoff (2 ^ i * 1000)]) [Suc a..<k]) @ evk)"
    using Suc.hyps(1) [OF n, of "Some (err a)"] Suc.prems lt by simp
  have upt: "[a..<k] = a # [Suc a..<k]"
    using lt by (simp add: upt_conv_Cons)
  show ?case
    using lt fails rest Suc.prems(2)
    by (subst retry_loop.simps) (simp add: upt)
qed

lemma request_valid:
  assumes "buildUrl rt c (path options) (query options) = Inr url"
    and "validateUrl rt url"
  shows "request rt now c options =
           (fst (retry_loop rt c options url 0 None),
            rate_limit_events now c @ snd (retry_loop rt c options url 0 None),
            c\<lparr>rateLimiter := snd (checkRateLimit now (rateLimiter c))\<rparr>)"
  using assms
  by (simp add: request_def rate_limit_events_def split: prod.splits)

text \<open>The four ways through the \<^verbatim>\<open>try\<close> block.\<close>

lemma try_attempt_no_init:
  "request_init rt c options = Inl e \<Longrightarrow> try_attempt rt c options url i = (Inl e, [])"
  by (simp add: try_attempt_def)

lemma try_attempt_rejected:
  "request_init rt c options = Inr init \<Longrightarrow> fetch rt i url init = Inl e \<Longrightarrow>
     try_attempt rt c options url i = (Inl e, [Fetch i])"
  by (simp add: try_attempt_def)

lemma try_attempt_undecodable:
  "request_init rt c options = Inr init \<Longrightarrow> fetch rt i url init = Inr r \<Longrightarrow>
     r_json r = Inl e \<Longrightarrow> try_attempt rt c options url i = (Inl e, [Fetch i])"
  by (simp add: try_attempt_def)

lemma try_attempt_decoded:
  "request_init rt c options = Inr init \<Longrightarrow> fetch rt i url init = Inr r \<Longrightarrow>
     r_json r = Inr d \<Longrightarrow>
     try_attempt rt c options url i =
       (Inr \<lparr>status = r_status r, statusText = r_statusText r,
             response_headers = fromEntries (r_entries r), data = d,
             requestId = header_or_undefined (r_entries r) ''x-request-id''\<rparr>,
        [Fetch i])"
  by (simp add: try_attempt_def)

lemma try_attempt_fails_iff:
  "fst (try_attempt rt c options url i) = Inl e \<longleftrightarrow>
     request_init rt c options = Inl e
     \<or> (\<exists>init. request_init rt c options = Inr init
           \<and> (fetch rt i url init = Inl e
              \<or> (\<exists>r. fetch rt i url init = Inr r \<and> r_json r = Inl e)))"
  by (auto simp: try_attempt_def split: sum.splits)

text \<open>Requests with a valid URL whose attempts fail after calling \<^verbatim>\<open>fetch\<close>.\<close>

lemma request_all_fetched_fail:
  assumes "buildUrl rt c (path options) (query options) = Inr url"
    and "validateUrl rt url"
    and "\<And>i. int i < retryAttempts (config c) \<Longrightarrow>
           try_attempt rt c options url i = (Inl (err i), [Fetch i])"
  shows "request rt now c options =
           (Inl (if 0 < retryAttempts (config c) then err (nat (retryAttempts (config c)) - 1)
                 else RequestFailedAfterRetries),
            rate_limit_events now c @ failed_attempts (retryAttempts (config c)) 0,
            c\<lparr>rateLimiter := snd (checkRateLimit now (rateLimiter c))\<rparr>)"
proof -
  have "(\<lambda>i. [Fetch i] @ backoff_after (retryAttempts (config c)) i)
          = failed_attempt (retryAttempts (config c))"
    by (rule ext) (simp add: failed_attempt_def backoff_after_def)
  then show ?thesis
    using retry_loop_all_fail [of 0 c rt options url err "\<lambda>i. [Fetch i]" None] assms(3)
    by (simp add: request_valid [OF assms(1,2)] failed_attempts_def)
qed

lemma request_none_fetched:
  assumes "buildUrl rt c (path options) (query options) = Inr url"
    and "validateUrl rt url"
    and "request_init rt c options = Inl e"
  shows "request rt now c options =
           (Inl (if 0 < retryAttempts (config c) then e else RequestFailedAfterRetries),
            rate_limit_events now c @ skipped_attempts (retryAttempts (config c)) 0,
            c\<lparr>rateLimiter := snd (checkRateLimit now (rateLimiter c))\<rparr>)"
  using retry_loop_all_fail [of 0 c rt options url "\<lambda>i. e" "\<lambda>i. []" None]
    try_attempt_no_init [OF assms(3)]
  by (simp add: request_valid [OF assms(1,2)] skipped_attempts_def)

lemma request_first_success:
  assumes "buildUrl rt c (path options) (query options) = Inr url"
    and "validateUrl rt url"
    and "int k < retryAttempts (config c)"
    and "\<And>i. i < k \<Longrightarrow> try_attempt rt c options url i = (Inl (err i), [Fetch i])"
    and "try_attempt rt c options url k = (Inr response, [Fetch k])"
  shows "request rt now c options =
           (Inr response,
            rate_limit_events now c
              @ concat (map (\<lambda>i. [Fetch i, Backoff (2 ^ i * 1000)]) [0..<k]) @ [Fetch k],
            c\<lparr>rateLimiter := snd (checkRateLimit now (rateLimiter c))\<rparr>)"
  using retry_loop_first_success
          [of 0 k c rt options url err "\<lambda>i. [Fetch i]" response "[Fetch k]" None]
    assms(3-5)
  by (simp add: request_valid [OF assms(1,2)])

lemma count_failed_attempts:
  "length (filter is_Fetch (failed_attempts R a)) = nat R - a"
proof (induction "nat R - a" arbitrary: a)
  case 0
  then show ?case by (simp add: failed_attempts_done)
next
  case (Suc n)
  then have "int a < R" and "n = nat R - Suc a" by linarith+
  with Suc.hyps(1) [of "Suc a"] Suc.hyps(2) show ?case
    by (simp add: failed_attempts_step failed_attempt_def)
qed

lemma no_fetch_in_rate_limit_events: "filter is_Fetch (rate_limit_events now c) = []"
  by (simp add: rate_limit_events_def split: option.splits)

lemma three_failed_attempts:
  "failed_attempts 3 0 = [Fetch 0, Backoff 1000, Fetch 1, Backoff 2000, Fetch 2]"
  by (simp add: failed_attempts_def failed_attempt_def upt_conv_Cons)

lemma three_skipped_attempts:
  "skipped_attempts 3 0 = [Backoff 1000, Backoff 2000]"
  by (simp add: skipped_attempts_def backoff_after_def upt_conv_Cons)

text \<open>The examples: \<^verbatim>\<open>get('/user')\<close> on the GitHub client, checked at time 1000.\<close>

lemma get_user_url:
  assumes "URL_new rt = plain_URL_new" and "URL_toString rt = plain_URL_toString"
  shows "buildUrl rt github_client ''/user'' None = Inr ''https://api.github.com/user''"
    and "validateUrl rt ''https://api.github.com/user''"
  using assms
  by (simp_all add: buildUrl_def validateUrl_def example_config_defs plain_URL_defs
        blockedHosts_def)

lemma example_rt_URL:
  "URL_new example_rt = plain_URL_new" "URL_toString example_rt = plain_URL_toString"
  "URL_new not_found_rt = plain_URL_new" "URL_toString not_found_rt = plain_URL_toString"
  "URL_new flaky_rt = plain_URL_new" "URL_toString flaky_rt = plain_URL_toString"
  "URL_new down_rt = plain_URL_new" "URL_toString down_rt = plain_URL_toString"
  "URL_new no_content_rt = plain_URL_new" "URL_toString no_content_rt = plain_URL_toString"
  by (simp_all add: example_rt_defs)

lemma get_user_fields:
  "path get_user = ''/user''" "query get_user = None"
  "path get_user_negative_timeout = ''/user''" "query get_user_negative_timeout = None"
  by (simp_all add: get_user_def get_user_negative_timeout_def)

lemma get_user_init:
  assumes "JSON_stringify rt = JSON_stringify example_rt"
    and "AbortSignal_timeout rt = AbortSignal_timeout example_rt"
  shows "request_init rt github_client get_user =
           Inr \<lparr>init_method = GET, init_headers = request_headers github_client get_user,
                init_body = None, init_timeout = 30000\<rparr>"
    and "request_init rt github_client get_user_negative_timeout =
           Inl (RangeError ''ERR_OUT_OF_RANGE'')"
  using assms
  by (simp_all add: request_init_def get_user_def get_user_negative_timeout_def
        example_rt_def example_config_defs)

lemma example_rt_init:
  "JSON_stringify not_found_rt = JSON_stringify example_rt"
  "AbortSignal_timeout not_found_rt = AbortSignal_timeout example_rt"
  "JSON_stringify flaky_rt = JSON_stringify example_rt"
  "AbortSignal_timeout flaky_rt = AbortSignal_timeout example_rt"
  "JSON_stringify down_rt = JSON_stringify example_rt"
  "AbortSignal_timeout down_rt = AbortSignal_timeout example_rt"
  "JSON_stringify no_content_rt = JSON_stringify example_rt"
  "AbortSignal_timeout no_content_rt = AbortSignal_timeout example_rt"
  by (simp_all add: example_rt_defs)

lemma github_client_checked:
  "rate_limit_events 1000 github_client = []"
  "snd (checkRateLimit 1000 (rateLimiter github_client))
     = \<lparr>remaining = 4999, limit = 5000, resetAt = 60000\<rparr>"
  "retryAttempts (config github_client) = 3"
  by (simp_all add: rate_limit_events_def checkRateLimit_def example_config_defs)

section \<open>Authentication headers\<close>

text \<open>
  C9, as the code has it. A credential is present when it is set to a non-empty
  string, which is the test the code applies (\<open>present\<close>). When the access token
  \<open>t\<close> and the API key \<open>k\<close> are both present, the client attaches
  \<^verbatim>\<open>Authorization: Bearer t\<close> and no \<^verbatim>\<open>X-API-Key\<close>; when only the API key is
  present it attaches \<^verbatim>\<open>X-API-Key: k\<close>; when neither is present it attaches
  nothing. Under each of these two names the outgoing request carries the
  caller's header when the caller supplies one, and otherwise what the client
  attaches; these are the headers of every call of \<^verbatim>\<open>fetch\<close>.
\<close>

theorem auth_headers_precedence:
  "(accessToken (credentials (config c)) = Some t \<and> present (Some t)
      \<and> apiKey (credentials (config c)) = Some k \<and> present (Some k)
      \<longrightarrow> getAuthHeaders c = [''Authorization'' \<mapsto> ''Bearer '' @ t]
          \<and> getAuthHeaders c ''X-API-Key'' = None)
   \<and> (\<not> present (accessToken (credentials (config c)))
      \<and> apiKey (credentials (config c)) = Some k \<and> present (Some k)
      \<longrightarrow> getAuthHeaders c = [''X-API-Key'' \<mapsto> k])
   \<and> (\<not> present (accessToken (credentials (config c)))
      \<and> \<not> present (apiKey (credentials (config c)))
      \<longrightarrow> getAuthHeaders c = Map.empty)
   \<and> (hdr \<in> {''Authorization'', ''X-API-Key''}
      \<longrightarrow> request_headers c options hdr
            = (case caller_headers options hdr of
                 Some v \<Rightarrow> Some v
               | None \<Rightarrow> getAuthHeaders c hdr))
   \<and> (request_init rt c options = Inr init
      \<longrightarrow> init_headers init = request_headers c options)"
proof -
  have "init_headers init = request_headers c options"
    if "request_init rt c options = Inr init"
    using that by (auto simp: request_init_def Let_def split: sum.splits option.splits)
  then show ?thesis
    by (auto simp: getAuthHeaders_def present_def request_headers_def caller_headers_def
          map_add_def split: option.splits)
qed

theorem auth_headers_precedence_witness:
  "getAuthHeaders (SafeHttpClient_new token_and_key_config 0)
     = [''Authorization'' \<mapsto> ''Bearer t'']
   \<and> getAuthHeaders (SafeHttpClient_new token_and_key_config 0) ''X-API-Key'' = None
   \<and> getAuthHeaders (SafeHttpClient_new key_only_config 0) = [''X-API-Key'' \<mapsto> ''k'']
   \<and> getAuthHeaders github_client = Map.empty
   \<and> request_headers (SafeHttpClient_new token_and_key_config 0) get_user ''Authorization''
       = Some ''Bearer t''
   \<and> request_headers (SafeHttpClient_new token_and_key_config 0) get_user ''X-API-Key'' = None
   \<and> request_headers (SafeHttpClient_new token_and_key_config 0) get_user_with_key
        ''X-API-Key'' = Some ''mine''
   \<and> init_headers \<lparr>init_method = GET,
                     init_headers = request_headers github_client get_user,
                     init_body = None, init_timeout = 30000\<rparr>
       = request_headers github_client get_user"
proof -
  have both:
    "accessToken (credentials (config (SafeHttpClient_new token_and_key_config 0))) = Some ''t''"
    "apiKey (credentials (config (SafeHttpClient_new token_and_key_config 0))) = Some ''k''"
    "present (Some ''t'')" "present (Some ''k'')"
    by (simp_all add: example_config_defs present_def)
  have key:
    "\<not> present (accessToken (credentials (config (SafeHttpClient_new key_only_config 0))))"
    "apiKey (credentials (config (SafeHttpClient_new key_only_config 0))) = Some ''k''"
    by (simp_all add: example_config_defs present_def)
  have none:
    "\<not> present (accessToken (credentials (config github_client)))"
    "\<not> present (apiKey (credentials (config github_client)))"
    by (simp_all add: example_config_defs present_def)
  have caller: "caller_headers get_user ''Authorization'' = None"
    "caller_headers get_user ''X-API-Key'' = None"
    "caller_headers get_user_with_key ''X-API-Key'' = Some ''mine''"
    by (simp_all add: caller_headers_def get_user_def get_user_with_key_def)
  show ?thesis
    using auth_headers_precedence
            [of "SafeHttpClient_new token_and_key_config 0" "''t''" "''k''"
                "''Authorization''" get_user example_rt]
          auth_headers_precedence
            [of "SafeHttpClient_new token_and_key_config 0" "''t''" "''k''"
                "''X-API-Key''" get_user example_rt]
          auth_headers_precedence
            [of "SafeHttpClient_new token_and_key_config 0" "''t''" "''k''"
                "''X-API-Key''" get_user_with_key example_rt]
          auth_headers_precedence
            [of "SafeHttpClient_new key_only_config 0" "''t''" "''k''"
                "''X-API-Key''" get_user example_rt]
          auth_headers_precedence
            [of github_client "''t''" "''k''" "''X-API-Key''" get_user example_rt,
             where init = "\<lparr>init_method = GET,
                             init_headers = request_headers github_client get_user,
                             init_body = None, init_timeout = 30000\<rparr>"]
          get_user_init(1) [of example_rt]
          both key none caller
    by simp
qed

text \<open>
  C9 as stated fails. The client has the access token \<^verbatim>\<open>t\<close> and the API key
  \<^verbatim>\<open>k\<close>, the caller passes an \<^verbatim>\<open>X-API-Key\<close> header, and \<^verbatim>\<open>fetch\<close> receives that
  header beside \<^verbatim>\<open>Authorization: Bearer t\<close>. And when the access token is set to the
  empty string, the client attaches the API key, not a bearer token.
\<close>

theorem auth_headers_counterexample:
  "request_init example_rt (SafeHttpClient_new token_and_key_config 0) get_user_with_key
     = Inr \<lparr>init_method = GET,
            init_headers =
              request_headers (SafeHttpClient_new token_and_key_config 0) get_user_with_key,
            init_body = None, init_timeout = 30000\<rparr>
   \<and> request_headers (SafeHttpClient_new token_and_key_config 0) get_user_with_key
        ''Authorization'' = Some ''Bearer t''
   \<and> request_headers (SafeHttpClient_new token_and_key_config 0) get_user_with_key
        ''X-API-Key'' = Some ''mine''
   \<and> accessToken (credentials (config (SafeHttpClient_new empty_token_config 0))) = Some []
   \<and> getAuthHeaders (SafeHttpClient_new empty_token_config 0) ''Authorization'' = None
   \<and> getAuthHeaders (SafeHttpClient_new empty_token_config 0) ''X-API-Key'' = Some ''k''"
  by (simp add: request_init_def request_headers_def getAuthHeaders_def present_def
        get_user_with_key_def get_user_def example_rt_def example_config_defs)

section \<open>Request headers\<close>

text \<open>
  C2, as the code has it. The headers of the outgoing request, which are the headers
  of every call of \<^verbatim>\<open>fetch\<close>, always have a \<^verbatim>\<open>Content-Type\<close> and a
  \<^verbatim>\<open>User-Agent\<close>. A header that the caller supplies reaches the network with the
  caller's value, whatever its name: the authentication headers are overridden like
  the others. A header that the caller does not supply has the client's value:
  \<^verbatim>\<open>application/json\<close>, the versioned user agent, and for \<^verbatim>\<open>Authorization\<close> and
  \<^verbatim>\<open>X-API-Key\<close> what \<^verbatim>\<open>getAuthHeaders\<close> sets.
\<close>

theorem request_headers_caller_wins:
  "''Content-Type'' \<in> dom (request_headers c options)
   \<and> ''User-Agent'' \<in> dom (request_headers c options)
   \<and> (headers options = Some h \<and> h k = Some v
      \<longrightarrow> request_headers c options k = Some v)
   \<and> ((headers options = None \<or> (headers options = Some h \<and> h ''Content-Type'' = None))
      \<longrightarrow> request_headers c options ''Content-Type'' = Some ''application/json'')
   \<and> ((headers options = None \<or> (headers options = Some h \<and> h ''User-Agent'' = None))
      \<longrightarrow> request_headers c options ''User-Agent''
            = Some (''BlackRoad-CLI/'' @ version (config c)))
   \<and> ((headers options = None \<or> (headers options = Some h \<and> h k = None))
      \<and> k \<in> {''Authorization'', ''X-API-Key''}
      \<longrightarrow> request_headers c options k = getAuthHeaders c k)
   \<and> (request_init rt c options = Inr init
      \<longrightarrow> init_headers init = request_headers c options)"
proof -
  have "init_headers init = request_headers c options"
    if "request_init rt c options = Inr init" for init
    using that by (auto simp: request_init_def Let_def split: sum.splits option.splits)
  then show ?thesis
    by (auto simp: request_headers_def getAuthHeaders_def map_add_def dom_def
          split: option.splits)
qed

theorem request_headers_caller_wins_witness:
  "request_headers (SafeHttpClient_new token_and_key_config 0) get_user_as_other
     ''Authorization'' = Some ''Bearer other''
   \<and> request_headers (SafeHttpClient_new token_and_key_config 0) get_user_as_other
       ''Content-Type'' = Some ''application/json''
   \<and> request_headers (SafeHttpClient_new token_and_key_config 0) get_user_as_other
       ''User-Agent'' = Some ''BlackRoad-CLI/2022-11-28''
   \<and> request_headers (SafeHttpClient_new token_and_key_config 0) get_user_as_other
       ''X-API-Key'' = None
   \<and> request_headers (SafeHttpClient_new token_and_key_config 0) get_user
       ''Authorization'' = Some ''Bearer t''
   \<and> init_headers \<lparr>init_method = GET,
                     init_headers = request_headers github_client get_user,
                     init_body = None, init_timeout = 30000\<rparr>
       = request_headers github_client get_user"
proof -
  let ?h = "[''Authorization'' \<mapsto> ''Bearer other'']"
  have caller: "headers get_user_as_other = Some ?h" "headers get_user = None"
       "?h ''Authorization'' = Some ''Bearer other''" "?h ''Content-Type'' = None"
       "?h ''User-Agent'' = None" "?h ''X-API-Key'' = None"
    by (simp_all add: get_user_as_other_def get_user_def)
  have client: "version (config (SafeHttpClient_new token_and_key_config 0)) = ''2022-11-28''"
       "getAuthHeaders (SafeHttpClient_new token_and_key_config 0) ''X-API-Key'' = None"
       "getAuthHeaders (SafeHttpClient_new token_and_key_config 0) ''Authorization''
          = Some ''Bearer t''"
    by (simp_all add: getAuthHeaders_def present_def example_config_defs)
  show ?thesis
    using request_headers_caller_wins
            [of "SafeHttpClient_new token_and_key_config 0" get_user_as_other
                ?h "''Authorization''" "''Bearer other''" example_rt]
          request_headers_caller_wins
            [of "SafeHttpClient_new token_and_key_config 0" get_user_as_other
                ?h "''X-API-Key''" "''Bearer other''" example_rt]
          request_headers_caller_wins
            [of "SafeHttpClient_new token_and_key_config 0" get_user
                ?h "''Authorization''" "''Bearer other''" example_rt]
          request_headers_caller_wins
            [of github_client get_user ?h "''Authorization''" "''Bearer other''" example_rt,
             where init = "\<lparr>init_method = GET,
                             init_headers = request_headers github_client get_user,
                             init_body = None, init_timeout = 30000\<rparr>"]
          get_user_init(1) [of example_rt]
          caller client
    by simp
qed

text \<open>
  C2 as stated fails: the client is configured with the access token \<^verbatim>\<open>t\<close>, the
  caller passes an \<^verbatim>\<open>Authorization\<close> header of its own, and \<^verbatim>\<open>fetch\<close> receives the
  caller's header in place of \<^verbatim>\<open>Bearer t\<close>.
\<close>

theorem request_headers_auth_counterexample:
  "getAuthHeaders (SafeHttpClient_new token_and_key_config 0) ''Authorization''
     = Some ''Bearer t''
   \<and> request_init example_rt (SafeHttpClient_new token_and_key_config 0) get_user_as_other
       = Inr \<lparr>init_method = GET,
              init_headers =
                request_headers (SafeHttpClient_new token_and_key_config 0) get_user_as_other,
              init_body = None, init_timeout = 30000\<rparr>
   \<and> request_headers (SafeHttpClient_new token_and_key_config 0) get_user_as_other
       ''Authorization'' = Some ''Bearer other''"
  by (simp add: request_init_def request_headers_def getAuthHeaders_def present_def
        get_user_as_other_def get_user_def example_rt_def example_config_defs)

section \<open>Rate limiting\<close>

lemma checkRateLimit_limit: "limit (snd (checkRateLimit now rl)) = limit rl"
  by (simp add: checkRateLimit_def Let_def)

lemma whole_positive: "x \<in> \<int> \<Longrightarrow> 0 < x \<Longrightarrow> 1 \<le> (x::real)"
  by (auto elim!: Ints_cases)

lemma checkRateLimit_inv:
  assumes "limit rl \<in> \<int>" and "1 \<le> limit rl" and "remaining rl \<in> \<int>" and "limiter_inv rl"
  shows "limiter_inv (snd (checkRateLimit now rl))"
    and "remaining (snd (checkRateLimit now rl)) \<in> \<int>"
proof -
  have "1 \<le> remaining rl" if "\<not> remaining rl \<le> 0"
    using that assms(3) by (simp add: whole_positive)
  then show "limiter_inv (snd (checkRateLimit now rl))"
    using assms(2,4) by (auto simp: checkRateLimit_def limiter_inv_def Let_def)
  show "remaining (snd (checkRateLimit now rl)) \<in> \<int>"
    using assms(1,3) by (auto simp: checkRateLimit_def Let_def)
qed

lemma checkRateLimit_seq_inv:
  "limit rl \<in> \<int> \<Longrightarrow> 1 \<le> limit rl \<Longrightarrow> remaining rl \<in> \<int> \<Longrightarrow> limiter_inv rl
     \<Longrightarrow> limiter_inv (snd (checkRateLimit_seq ts rl))"
proof (induction ts arbitrary: rl)
  case Nil
  then show ?case by simp
next
  case (Cons t ts)
  have "limiter_inv (snd (checkRateLimit_seq ts (snd (checkRateLimit t rl))))"
    using Cons.IH [of "snd (checkRateLimit t rl)"] Cons.prems
    by (simp add: checkRateLimit_limit checkRateLimit_inv)
  then show ?case
    by (simp add: split_def Let_def)
qed



text \<open>
  C8, as the code has it. For a client built with a limit that is a whole number and
  at least 1, the invariant \<open>0 \<le> remaining \<le> limit\<close> holds after construction,
  with \<open>remaining\<close> a whole number; every rate-limit check run on a limiter with
  such a limit and a whole \<open>remaining\<close> preserves the invariant, the limit and the
  wholeness; and so the invariant holds after any sequence of checks.
\<close>

theorem limiter_invariant:
  "(rateLimitPerMinute cfg \<in> \<int> \<and> 1 \<le> rateLimitPerMinute cfg
      \<longrightarrow> limiter_inv (rateLimiter (SafeHttpClient_new cfg t0))
          \<and> remaining (rateLimiter (SafeHttpClient_new cfg t0)) \<in> \<int>
          \<and> limit (rateLimiter (SafeHttpClient_new cfg t0)) = rateLimitPerMinute cfg)
   \<and> (limit rl \<in> \<int> \<and> 1 \<le> limit rl \<and> remaining rl \<in> \<int> \<and> limiter_inv rl
      \<longrightarrow> limiter_inv (snd (checkRateLimit now rl))
          \<and> remaining (snd (checkRateLimit now rl)) \<in> \<int>
          \<and> limit (snd (checkRateLimit now rl)) = limit rl)
   \<and> (rateLimitPerMinute cfg \<in> \<int> \<and> 1 \<le> rateLimitPerMinute cfg
      \<longrightarrow> limiter_inv (snd (checkRateLimit_seq ts (rateLimiter (SafeHttpClient_new cfg t0)))))"
proof -
  have built: "limiter_inv (rateLimiter (SafeHttpClient_new cfg t0))"
    if "1 \<le> rateLimitPerMinute cfg"
    using that by (simp add: SafeHttpClient_new_def limiter_inv_def)
  have fields: "limit (rateLimiter (SafeHttpClient_new cfg t0)) = rateLimitPerMinute cfg"
    "remaining (rateLimiter (SafeHttpClient_new cfg t0)) = rateLimitPerMinute cfg"
    by (simp_all add: SafeHttpClient_new_def)
  show ?thesis
    using built fields checkRateLimit_inv [of rl now] checkRateLimit_limit [of now rl]
      checkRateLimit_seq_inv [of "rateLimiter (SafeHttpClient_new cfg t0)" ts]
    by simp
qed

theorem limiter_invariant_witness:
  "limiter_inv (rateLimiter (SafeHttpClient_new limit_two_config 0))
   \<and> limiter_inv (snd (checkRateLimit 30000 \<lparr>remaining = 0, limit = 2, resetAt = 60000\<rparr>))
   \<and> limiter_inv (snd (checkRateLimit_seq [1000, 2000, 45000, 70000]
                          (rateLimiter (SafeHttpClient_new limit_two_config 0))))"
proof -
  have "rateLimitPerMinute limit_two_config \<in> \<int> \<and> 1 \<le> rateLimitPerMinute limit_two_config"
    by (simp add: example_config_defs)
  moreover have "limit \<lparr>remaining = 0, limit = 2, resetAt = 60000\<rparr> \<in> \<int>
      \<and> 1 \<le> limit \<lparr>remaining = 0, limit = 2, resetAt = 60000\<rparr>
      \<and> remaining \<lparr>remaining = 0, limit = 2, resetAt = 60000\<rparr> \<in> \<int>
      \<and> limiter_inv \<lparr>remaining = 0, limit = 2, resetAt = 60000\<rparr>"
    by (simp add: limiter_inv_def)
  ultimately show ?thesis
    using limiter_invariant [of limit_two_config 0
            "\<lparr>remaining = 0, limit = 2, resetAt = 60000\<rparr>" 30000 "[1000, 2000, 45000, 70000]"]
    by simp
qed

text \<open>
  C8 as stated fails for a limit below 1 and for a limit that is not a whole number.
  With a limit of 0 the invariant holds after construction and the first check breaks
  it: the check waits, sets \<open>remaining\<close> to the limit 0 and decrements it to -1.
  With a limit of -1, which \<^verbatim>\<open>createPlatformConfig\<close> passes on, \<open>remaining\<close> is
  negative from construction. With a limit of 1.5 the second check finds
  \<open>remaining = 0.5\<close>, which is not \<open>\<le> 0\<close>, and decrements it to -0.5.
\<close>

theorem limiter_invariant_counterexample:
  "limiter_inv (rateLimiter (SafeHttpClient_new limit_zero_config 0))
   \<and> snd (checkRateLimit 1000 (rateLimiter (SafeHttpClient_new limit_zero_config 0)))
       = \<lparr>remaining = - 1, limit = 0, resetAt = 60000\<rparr>
   \<and> \<not> limiter_inv (snd (checkRateLimit 1000 (rateLimiter (SafeHttpClient_new limit_zero_config 0))))
   \<and> \<not> limiter_inv (rateLimiter (SafeHttpClient_new limit_negative_config 0))
   \<and> limiter_inv (rateLimiter (SafeHttpClient_new limit_fraction_config 0))
   \<and> checkRateLimit_seq [1000, 2000] (rateLimiter (SafeHttpClient_new limit_fraction_config 0))
       = ([None, None], \<lparr>remaining = - (1 / 2), limit = 3 / 2, resetAt = 60000\<rparr>)
   \<and> \<not> limiter_inv (snd (checkRateLimit_seq [1000, 2000]
                             (rateLimiter (SafeHttpClient_new limit_fraction_config 0))))"
  by (simp add: example_config_defs checkRateLimit_def limiter_inv_def)

section \<open>URL validation\<close>

text \<open>
  What holds of \<^verbatim>\<open>validateUrl\<close>, whatever the \<^verbatim>\<open>URL\<close> constructor of the runtime
  is: if it reads \<^verbatim>\<open>http://localhost/x\<close> with protocol \<^verbatim>\<open>http:\<close> and host name
  \<^verbatim>\<open>localhost\<close>, that URL is accepted exactly when \<^verbatim>\<open>NODE_ENV\<close> is not
  \<^verbatim>\<open>production\<close>; a string on which the constructor throws is rejected in every
  mode; in production a URL whose protocol is not \<^verbatim>\<open>https:\<close> is rejected, and so
  is a URL whose host name, as the constructor returns it, is an entry of the list.
\<close>

lemma validateUrl_policy:
  "(URL_new rt ''http://localhost/x'' None = Some u \<and> protocol u = ''http:''
      \<and> hostname u = ''localhost''
      \<longrightarrow> (validateUrl rt ''http://localhost/x'' \<longleftrightarrow> NODE_ENV rt \<noteq> Some ''production''))
   \<and> (URL_new rt s None = None \<longrightarrow> \<not> validateUrl rt s)
   \<and> (NODE_ENV rt = Some ''production'' \<and> URL_new rt s None = Some parsed
      \<and> protocol parsed \<noteq> ''https:''
      \<longrightarrow> \<not> validateUrl rt s)
   \<and> (NODE_ENV rt = Some ''production'' \<and> URL_new rt s None = Some parsed
      \<and> hostname parsed \<in> set blockedHosts
      \<longrightarrow> \<not> validateUrl rt s)"
  by (auto simp: validateUrl_def)

lemma validateUrl_examples:
  "validateUrl example_rt ''http://localhost/x''"
  "\<not> validateUrl production_rt ''http://localhost/x''"
  "\<not> validateUrl example_rt ''not a url''"
  "\<not> validateUrl production_rt ''not a url''"
  "\<not> validateUrl production_rt ''http://api.github.com/user''"
  "\<not> validateUrl production_rt ''https://localhost/x''"
  by (simp_all add: validateUrl_def blockedHosts_def example_rt_defs plain_URL_defs)

text \<open>
  The comparison is an exact match on the host name as the constructor returns it.
  For a URL with an IPv6 literal the platform returns the literal in its brackets,
  and no entry of the list has brackets: a URL with such a host passes in every mode
  when its protocol is \<^verbatim>\<open>https:\<close>.
\<close>

lemma validateUrl_bracketed_host:
  "URL_new rt s None = Some parsed \<Longrightarrow> protocol parsed = ''https:''
     \<Longrightarrow> hostname parsed = ''[::1]'' \<Longrightarrow> validateUrl rt s"
  by (simp add: validateUrl_def blockedHosts_def)

text \<open>
  C6. The claim: in production \<^verbatim>\<open>validateUrl\<close> rejects every URL whose host is one of
  \<^verbatim>\<open>localhost\<close>, \<^verbatim>\<open>127.0.0.1\<close>, \<^verbatim>\<open>0.0.0.0\<close> and \<^verbatim>\<open>::1\<close>, beside every URL that is
  not HTTPS and every string that does not parse. The code lists \<^verbatim>\<open>::1\<close> among the
  blocked hosts and misses it: in production the URL \<^verbatim>\<open>https://[::1]/x\<close> of the
  IPv6 loopback parses with the host name \<^verbatim>\<open>[::1]\<close>, which the list does not have,
  and \<^verbatim>\<open>validateUrl\<close> accepts it.
\<close>

theorem validateUrl_ipv6_loopback_accepted:
  "NODE_ENV production_rt = Some ''production''
   \<and> ''::1'' \<in> set blockedHosts
   \<and> URL_new production_rt ''https://[::1]/x'' None
       = Some \<lparr>protocol = ''https:'', hostname = ''[::1]'', port = [], pathname = ''/x'',
               searchParams = [], hash = []\<rparr>
   \<and> validateUrl production_rt ''https://[::1]/x''"
  by (simp add: validateUrl_def blockedHosts_def example_rt_defs plain_URL_defs)

text \<open>
  C7. When \<^verbatim>\<open>buildUrl\<close> returns a URL that \<^verbatim>\<open>validateUrl\<close> rejects,
  \<^verbatim>\<open>request\<close> throws the invalid-URL error for that URL at once: no event at all
  (no wait of the limiter, no \<^verbatim>\<open>fetch\<close>, no backoff), and the client, with its
  limiter, is as it was.
\<close>

theorem request_invalid_url:
  assumes "buildUrl rt c (path options) (query options) = Inr url"
    and "\<not> validateUrl rt url"
  shows "request rt now c options = (Inl (InvalidOrBlockedUrl url), [], c)"
  using assms by (simp add: request_def)

theorem request_invalid_url_witness:
  "request production_rt 5000 (SafeHttpClient_new docker_config 0) get_info
     = (Inl (InvalidOrBlockedUrl ''http://localhost:2375/info''), [],
        SafeHttpClient_new docker_config 0)"
proof -
  have built: "buildUrl production_rt (SafeHttpClient_new docker_config 0)
                 (path get_info) (query get_info) = Inr ''http://localhost:2375/info''"
    by (simp add: buildUrl_def get_info_def example_config_defs example_rt_defs
          plain_URL_defs)
  have blocked: "\<not> validateUrl production_rt ''http://localhost:2375/info''"
    by (simp add: validateUrl_def example_rt_defs plain_URL_defs)
  from request_invalid_url [OF built blocked]
  show ?thesis .
qed

section \<open>The retry loop of a request\<close>

text \<open>
  C1, as the code has it. The status of a response is never tested. An attempt fails
  exactly when something in its \<^verbatim>\<open>try\<close> block throws: the arguments of the call
  do not evaluate (\<^verbatim>\<open>JSON.stringify\<close> or \<^verbatim>\<open>AbortSignal.timeout\<close> throws),
  \<^verbatim>\<open>fetch\<close> rejects, or the body of the response does not decode as JSON. For a
  request with a valid URL:
  \<^item> if the arguments evaluate, the attempts before attempt \<open>k\<close> fail and attempt \<open>k\<close>,
    within the limit, gets a response of any status whose body decodes, then each
    failed attempt is followed by a backoff of \<open>2 ^ i\<close> seconds and that response is
    returned with its status;
  \<^item> if the arguments evaluate and every attempt within the limit fails, the attempts
    are made with those backoffs between them and the call throws the error of the
    last attempt;
  \<^item> if the arguments do not evaluate, every attempt within the limit fails with
    their error before it calls \<^verbatim>\<open>fetch\<close>, the same backoffs are taken, and the
    call throws that error.
\<close>

theorem request_retries_thrown_errors:
  assumes "buildUrl rt c (path options) (query options) = Inr url"
    and "validateUrl rt url"
  shows
    "(fst (try_attempt rt c options url k) = Inl e \<longleftrightarrow>
        request_init rt c options = Inl e
        \<or> (\<exists>init. request_init rt c options = Inr init
              \<and> (fetch rt k url init = Inl e
                 \<or> (\<exists>r. fetch rt k url init = Inr r \<and> r_json r = Inl e))))
     \<and> (request_init rt c options = Inr init
        \<and> int k < retryAttempts (config c)
        \<and> (\<forall>i<k. fetch rt i url init = Inl (err i)
                  \<or> (\<exists>r. fetch rt i url init = Inr r \<and> r_json r = Inl (err i)))
        \<and> fetch rt k url init = Inr response
        \<and> r_json response = Inr d
        \<longrightarrow> request rt now c options =
             (Inr \<lparr>status = r_status response, statusText = r_statusText response,
                   response_headers = fromEntries (r_entries response), data = d,
                   requestId = header_or_undefined (r_entries response) ''x-request-id''\<rparr>,
              rate_limit_events now c
                @ concat (map (\<lambda>i. [Fetch i, Backoff (2 ^ i * 1000)]) [0..<k]) @ [Fetch k],
              c\<lparr>rateLimiter := snd (checkRateLimit now (rateLimiter c))\<rparr>))
     \<and> (request_init rt c options = Inr init
        \<and> (\<forall>i. int i < retryAttempts (config c)
               \<longrightarrow> fetch rt i url init = Inl (err i)
                   \<or> (\<exists>r. fetch rt i url init = Inr r \<and> r_json r = Inl (err i)))
        \<longrightarrow> request rt now c options =
             (Inl (if 0 < retryAttempts (config c)
                   then err (nat (retryAttempts (config c)) - 1)
                   else RequestFailedAfterRetries),
              rate_limit_events now c @ failed_attempts (retryAttempts (config c)) 0,
              c\<lparr>rateLimiter := snd (checkRateLimit now (rateLimiter c))\<rparr>))
     \<and> (request_init rt c options = Inl e
        \<longrightarrow> request rt now c options =
             (Inl (if 0 < retryAttempts (config c) then e else RequestFailedAfterRetries),
              rate_limit_events now c @ skipped_attempts (retryAttempts (config c)) 0,
              c\<lparr>rateLimiter := snd (checkRateLimit now (rateLimiter c))\<rparr>))"
proof (intro conjI impI)
  show "fst (try_attempt rt c options url k) = Inl e \<longleftrightarrow>
        request_init rt c options = Inl e
        \<or> (\<exists>init. request_init rt c options = Inr init
              \<and> (fetch rt k url init = Inl e
                 \<or> (\<exists>r. fetch rt k url init = Inr r \<and> r_json r = Inl e)))"
    by (rule try_attempt_fails_iff)
next
  assume h: "request_init rt c options = Inr init
        \<and> int k < retryAttempts (config c)
        \<and> (\<forall>i<k. fetch rt i url init = Inl (err i)
                  \<or> (\<exists>r. fetch rt i url init = Inr r \<and> r_json r = Inl (err i)))
        \<and> fetch rt k url init = Inr response
        \<and> r_json response = Inr d"
  then have before: "try_attempt rt c options url i = (Inl (err i), [Fetch i])" if "i < k" for i
    using that try_attempt_rejected [of rt c options init i url "err i"]
      try_attempt_undecodable [of rt c options init i url _ "err i"]
    by blast
  have at_k: "try_attempt rt c options url k =
       (Inr \<lparr>status = r_status response, statusText = r_statusText response,
             response_headers = fromEntries (r_entries response), data = d,
             requestId = header_or_undefined (r_entries response) ''x-request-id''\<rparr>,
        [Fetch k])"
    using h by (simp add: try_attempt_decoded)
  from h request_first_success [OF assms _ before at_k, of now]
  show "request rt now c options =
             (Inr \<lparr>status = r_status response, statusText = r_statusText response,
                   response_headers = fromEntries (r_entries response), data = d,
                   requestId = header_or_undefined (r_entries response) ''x-request-id''\<rparr>,
              rate_limit_events now c
                @ concat (map (\<lambda>i. [Fetch i, Backoff (2 ^ i * 1000)]) [0..<k]) @ [Fetch k],
              c\<lparr>rateLimiter := snd (checkRateLimit now (rateLimiter c))\<rparr>)"
    by simp
next
  assume h: "request_init rt c options = Inr init
        \<and> (\<forall>i. int i < retryAttempts (config c)
               \<longrightarrow> fetch rt i url init = Inl (err i)
                   \<or> (\<exists>r. fetch rt i url init = Inr r \<and> r_json r = Inl (err i)))"
  then have "try_attempt rt c options url i = (Inl (err i), [Fetch i])"
    if "int i < retryAttempts (config c)" for i
    using that try_attempt_rejected [of rt c options init i url "err i"]
      try_attempt_undecodable [of rt c options init i url _ "err i"]
    by blast
  from request_all_fetched_fail [OF assms this, where now = now]
  show "request rt now c options =
             (Inl (if 0 < retryAttempts (config c)
                   then err (nat (retryAttempts (config c)) - 1)
                   else RequestFailedAfterRetries),
              rate_limit_events now c @ failed_attempts (retryAttempts (config c)) 0,
              c\<lparr>rateLimiter := snd (checkRateLimit now (rateLimiter c))\<rparr>)"
    by simp
next
  assume "request_init rt c options = Inl e"
  from request_none_fetched [OF assms this]
  show "request rt now c options =
             (Inl (if 0 < retryAttempts (config c) then e else RequestFailedAfterRetries),
              rate_limit_events now c @ skipped_attempts (retryAttempts (config c)) 0,
              c\<lparr>rateLimiter := snd (checkRateLimit now (rateLimiter c))\<rparr>)" .
qed

theorem request_retries_thrown_errors_witness:
  "request flaky_rt 1000 github_client get_user
     = (Inr \<lparr>status = 404, statusText = ''Not Found'',
             response_headers =
               fromEntries [(''content-type'', ''application/json''), (''x-request-id'', ''r1'')],
             data = ''Not Found'', requestId = Some ''r1''\<rparr>,
        [Fetch 0, Backoff 1000, Fetch 1],
        github_client\<lparr>rateLimiter := \<lparr>remaining = 4999, limit = 5000, resetAt = 60000\<rparr>\<rparr>)
   \<and> request no_content_rt 1000 github_client get_user
     = (Inl (SyntaxError ''Unexpected end of JSON input''),
        [Fetch 0, Backoff 1000, Fetch 1, Backoff 2000, Fetch 2],
        github_client\<lparr>rateLimiter := \<lparr>remaining = 4999, limit = 5000, resetAt = 60000\<rparr>\<rparr>)
   \<and> request example_rt 1000 github_client get_user_negative_timeout
     = (Inl (RangeError ''ERR_OUT_OF_RANGE''),
        [Backoff 1000, Backoff 2000],
        github_client\<lparr>rateLimiter := \<lparr>remaining = 4999, limit = 5000, resetAt = 60000\<rparr>\<rparr>)"
proof -
  let ?init = "\<lparr>init_method = GET, init_headers = request_headers github_client get_user,
                 init_body = None, init_timeout = 30000\<rparr>"
  have fails: "\<forall>i<1. fetch flaky_rt i ''https://api.github.com/user'' ?init
                      = Inl (NetworkError ''fetch failed'')
                    \<or> (\<exists>r. fetch flaky_rt i ''https://api.github.com/user'' ?init = Inr r
                          \<and> r_json r = Inl (NetworkError ''fetch failed''))"
    by (simp add: flaky_rt_def)
  have answer: "fetch flaky_rt 1 ''https://api.github.com/user'' ?init = Inr not_found"
      "r_json not_found = Inr ''Not Found''"
    by (simp_all add: flaky_rt_def not_found_def)
  have empty: "\<forall>i. int i < retryAttempts (config github_client) \<longrightarrow>
                 fetch no_content_rt i ''https://api.github.com/user'' ?init
                   = Inl (SyntaxError ''Unexpected end of JSON input'')
                 \<or> (\<exists>r. fetch no_content_rt i ''https://api.github.com/user'' ?init = Inr r
                       \<and> r_json r = Inl (SyntaxError ''Unexpected end of JSON input''))"
    by (simp add: no_content_rt_def no_content_def)
  show ?thesis
    using request_retries_thrown_errors
            [of flaky_rt github_client get_user,
             unfolded get_user_fields, OF get_user_url [OF example_rt_URL(5,6)],
             where k = 1 and err = "\<lambda>i. NetworkError ''fetch failed''" and init = ?init
               and response = not_found and d = "''Not Found''" and now = 1000]
          request_retries_thrown_errors
            [of no_content_rt github_client get_user,
             unfolded get_user_fields, OF get_user_url [OF example_rt_URL(9,10)],
             where err = "\<lambda>i. SyntaxError ''Unexpected end of JSON input''" and init = ?init
               and now = 1000]
          request_retries_thrown_errors
            [of example_rt github_client get_user_negative_timeout,
             unfolded get_user_fields, OF get_user_url [OF example_rt_URL(1,2)],
             where e = "RangeError ''ERR_OUT_OF_RANGE''" and now = 1000]
      get_user_init(1) [OF example_rt_init(3,4)]
      get_user_init(1) [OF example_rt_init(7,8)]
      get_user_init(2) [of example_rt]
      fails answer empty github_client_checked three_failed_attempts three_skipped_attempts
    by (simp add: not_found_def header_or_undefined_def)
qed

text \<open>
  C1 as stated fails: a response with status 404 whose body is JSON is returned to the
  caller at the first attempt, with no retry and no backoff.
\<close>

theorem request_non_2xx_counterexample:
  "request not_found_rt 1000 github_client get_user
     = (Inr \<lparr>status = 404, statusText = ''Not Found'',
             response_headers =
               fromEntries [(''content-type'', ''application/json''), (''x-request-id'', ''r1'')],
             data = ''Not Found'', requestId = Some ''r1''\<rparr>,
        [Fetch 0],
        github_client\<lparr>rateLimiter := \<lparr>remaining = 4999, limit = 5000, resetAt = 60000\<rparr>\<rparr>)"
proof -
  have "try_attempt not_found_rt github_client get_user ''https://api.github.com/user'' 0
        = (Inr \<lparr>status = 404, statusText = ''Not Found'',
                response_headers =
                  fromEntries [(''content-type'', ''application/json''), (''x-request-id'', ''r1'')],
                data = ''Not Found'', requestId = Some ''r1''\<rparr>,
           [Fetch 0])"
    using get_user_init(1) [OF example_rt_init(1,2)]
    by (simp add: try_attempt_def not_found_rt_def not_found_def header_or_undefined_def)
  then show ?thesis
    using request_first_success
            [of not_found_rt github_client get_user,
             unfolded get_user_fields, OF get_user_url [OF example_rt_URL(3,4)],
             where k = 0 and now = 1000]
      github_client_checked
    by simp
qed

text \<open>
  C5. With \<^verbatim>\<open>retryAttempts = 3\<close> and a valid URL, when the arguments of the call
  evaluate, so that every attempt calls \<^verbatim>\<open>fetch\<close>, and the call rejects at each of
  the three attempts, \<^verbatim>\<open>request\<close> calls \<^verbatim>\<open>fetch\<close> exactly three times, at the
  attempts 0, 1 and 2, hands 1000 ms to \<^verbatim>\<open>setTimeout\<close> after the first and 2000 ms
  after the second, nothing after the third, and throws the error of the third call.
\<close>

theorem request_three_failures:
  assumes "buildUrl rt c (path options) (query options) = Inr url"
    and "validateUrl rt url"
    and "retryAttempts (config c) = 3"
    and "request_init rt c options = Inr init"
    and "\<forall>i<3. fetch rt i url init = Inl (err i)"
  shows "request rt now c options =
           (Inl (err 2),
            rate_limit_events now c @ [Fetch 0, Backoff 1000, Fetch 1, Backoff 2000, Fetch 2],
            c\<lparr>rateLimiter := snd (checkRateLimit now (rateLimiter c))\<rparr>)
         \<and> length (filter is_Fetch (fst (snd (request rt now c options)))) = 3"
proof -
  have "try_attempt rt c options url i = (Inl (err i), [Fetch i])"
    if "int i < retryAttempts (config c)" for i
    using that assms(3,5) try_attempt_rejected [OF assms(4), of i url "err i"] by simp
  from request_all_fetched_fail [OF assms(1,2) this, where now = now] assms(3)
  show ?thesis
    by (simp add: three_failed_attempts no_fetch_in_rate_limit_events)
qed

theorem request_three_failures_witness:
  "request down_rt 1000 github_client get_user
     = (Inl TimeoutError,
        [] @ [Fetch 0, Backoff 1000, Fetch 1, Backoff 2000, Fetch 2],
        github_client\<lparr>rateLimiter := \<lparr>remaining = 4999, limit = 5000, resetAt = 60000\<rparr>\<rparr>)
   \<and> length (filter is_Fetch (fst (snd (request down_rt 1000 github_client get_user)))) = 3"
proof -
  let ?init = "\<lparr>init_method = GET, init_headers = request_headers github_client get_user,
                 init_body = None, init_timeout = 30000\<rparr>"
  have down: "\<forall>i<3. fetch down_rt i ''https://api.github.com/user'' ?init
                 = Inl (if i = 2 then TimeoutError else NetworkError ''fetch failed'')"
    by (simp add: down_rt_def)
  from request_three_failures
         [of down_rt github_client get_user,
          unfolded get_user_fields,
          OF get_user_url [OF example_rt_URL(7,8)] github_client_checked(3)
             get_user_init(1) [OF example_rt_init(5,6)] down,
          where now = 1000]
  show ?thesis
    by (simp add: github_client_checked)
qed

text \<open>
  C10. For a request with a valid URL whose call arguments evaluate: if every attempt
  within the limit gets a response, of whatever status, 2xx included, whose body does
  not decode as JSON (it is empty or is not JSON), then every attempt is made, each
  followed by its backoff except the last, so that \<^verbatim>\<open>fetch\<close> is called
  \<^verbatim>\<open>retryAttempts\<close> times, and the call throws the decoding error of the last
  attempt: no response is returned.
\<close>

theorem request_undecodable_body:
  assumes "buildUrl rt c (path options) (query options) = Inr url"
    and "validateUrl rt url"
    and "request_init rt c options = Inr init"
    and "\<forall>i. int i < retryAttempts (config c) \<longrightarrow>
           fetch rt i url init = Inr (response i) \<and> r_json (response i) = Inl (err i)"
  shows "request rt now c options =
           (Inl (if 0 < retryAttempts (config c) then err (nat (retryAttempts (config c)) - 1)
                 else RequestFailedAfterRetries),
            rate_limit_events now c @ failed_attempts (retryAttempts (config c)) 0,
            c\<lparr>rateLimiter := snd (checkRateLimit now (rateLimiter c))\<rparr>)
         \<and> length (filter is_Fetch (fst (snd (request rt now c options))))
             = nat (retryAttempts (config c))"
proof -
  have "try_attempt rt c options url i = (Inl (err i), [Fetch i])"
    if "int i < retryAttempts (config c)" for i
    using assms(4) that try_attempt_undecodable [OF assms(3), of i url "response i" "err i"]
    by simp
  from request_all_fetched_fail [OF assms(1,2) this, where now = now]
  show ?thesis
    by (simp add: count_failed_attempts no_fetch_in_rate_limit_events)
qed

theorem request_undecodable_body_witness:
  "request no_content_rt 1000 github_client get_user
     = (Inl (SyntaxError ''Unexpected end of JSON input''),
        [Fetch 0, Backoff 1000, Fetch 1, Backoff 2000, Fetch 2],
        github_client\<lparr>rateLimiter := \<lparr>remaining = 4999, limit = 5000, resetAt = 60000\<rparr>\<rparr>)
   \<and> length (filter is_Fetch (fst (snd (request no_content_rt 1000 github_client get_user))))
       = 3"
proof -
  let ?init = "\<lparr>init_method = GET, init_headers = request_headers github_client get_user,
                 init_body = None, init_timeout = 30000\<rparr>"
  have empty: "\<forall>i. int i < retryAttempts (config github_client) \<longrightarrow>
                 fetch no_content_rt i ''https://api.github.com/user'' ?init = Inr no_content
                 \<and> r_json no_content = Inl (SyntaxError ''Unexpected end of JSON input'')"
    by (simp add: no_content_rt_def no_content_def)
  from request_undecodable_body
         [of no_content_rt github_client get_user,
          unfolded get_user_fields,
          OF get_user_url [OF example_rt_URL(9,10)] get_user_init(1) [OF example_rt_init(7,8)],
          where response = "\<lambda>i. no_content"
            and err = "\<lambda>i. SyntaxError ''Unexpected end of JSON input''" and now = 1000,
          OF empty]
  show ?thesis
    by (simp add: github_client_checked three_failed_attempts)
qed

section \<open>Building the URL\<close>









end
